theory Spec2Isabelle
  imports Complex_Main "HOL-Library.Word"
begin

section \<open>Data model\<close>

text \<open>
  The package draws on a vector-graphics canvas. Every coordinate is a \<^verbatim>\<open>vg.Length\<close>,
  a \<^verbatim>\<open>float64\<close>. Lengths are modelled by \<^typ>\<open>real\<close>: the arithmetic of the source is
  read as exact arithmetic on finite values. The two places where the source leaves the
  finite numbers are written out: the start values \<open>+Inf\<close> and \<open>-Inf\<close> of the running
  minimum and maximum in \<^verbatim>\<open>squishX\<close>/\<^verbatim>\<open>squishY\<close> are the value \<open>None\<close> of an option, and the
  division by \<^verbatim>\<open>left - right\<close> there, which yields \<open>Inf\<close> or \<open>NaN\<close> in the source when the
  two anchors coincide, makes the model return \<open>None\<close>.

  Record fields keep the names of the source and are written qualified
  (\<open>point.x p\<close>, \<open>rect.min r\<close>, \<open>glyphBox.rect b\<close>).
\<close>

record point =
  x :: real
  y :: real

record rect =
  min :: point
  size :: point

text \<open>A glyph box: the anchor in normalised coordinates and the embedded footprint.\<close>

record glyphBox =
  x :: real
  y :: real
  rect :: rect

text \<open>
  Colours and fonts belong to the canvas library, which is not part of the package.
  A \<^verbatim>\<open>color.Color\<close> is an interface value and may be \<^verbatim>\<open>nil\<close>: \<open>color option\<close>.
\<close>

typedecl color
typedecl font

record LineStyle =
  Color :: "color option"
  Width :: real
  Dashes :: "real list"
  DashOffs :: real

text \<open>\<^verbatim>\<open>type GlyphShape uint8\<close>, with \<^verbatim>\<open>CircleGlyph = iota\<close> and \<^verbatim>\<open>RingGlyph\<close> next.\<close>

type_synonym GlyphShape = "8 word"

definition CircleGlyph :: GlyphShape where
  "CircleGlyph = 0"

definition RingGlyph :: GlyphShape where
  "RingGlyph = 1"

record GlyphStyle =
  Color :: "color option"
  Shape :: GlyphShape
  Radius :: real

text \<open>
  The canvas is an external capability that receives commands. It is modelled by the
  list of the commands it has received, oldest first; a path is the list of its
  components.
\<close>

datatype pathComp =
    Move real real
  | Line real real
  | Arc real real real real real
  | Close

datatype command =
    SetColor "color option"
  | SetLineWidth real
  | SetLineDash "real list" real
  | Fill "pathComp list"
  | Stroke "pathComp list"
  | FillText font real real string

record drawArea =
  Canvas :: "command list"
  rect :: rect

section \<open>Points and rectangles\<close>

definition rect_max :: "rect \<Rightarrow> point" where
  "rect_max r =
     \<lparr>point.x = point.x (rect.min r) + point.x (rect.size r),
      point.y = point.y (rect.min r) + point.y (rect.size r)\<rparr>"

definition dot :: "point \<Rightarrow> point \<Rightarrow> real" where
  "dot p q = point.x p * point.x q + point.y p * point.y q"

definition plus_pt :: "point \<Rightarrow> point \<Rightarrow> point" where
  "plus_pt p q = \<lparr>point.x = point.x p + point.x q, point.y = point.y p + point.y q\<rparr>"

definition minus_pt :: "point \<Rightarrow> point \<Rightarrow> point" where
  "minus_pt p q = \<lparr>point.x = point.x p - point.x q, point.y = point.y p - point.y q\<rparr>"

definition scale_pt :: "point \<Rightarrow> real \<Rightarrow> point" where
  "scale_pt p s = \<lparr>point.x = point.x p * s, point.y = point.y p * s\<rparr>"

section \<open>The drawing area\<close>

text \<open>\<^verbatim>\<open>da.max()\<close>, \<^verbatim>\<open>da.min\<close> and \<^verbatim>\<open>da.size\<close> are promoted from the embedded rect.\<close>

definition contains :: "drawArea \<Rightarrow> point \<Rightarrow> bool" where
  "contains da p \<longleftrightarrow>
     point.x p \<le> point.x (rect_max (drawArea.rect da)) \<and>
     point.x p \<ge> point.x (rect.min (drawArea.rect da)) \<and>
     point.y p \<le> point.y (rect_max (drawArea.rect da)) \<and>
     point.y p \<ge> point.y (rect.min (drawArea.rect da))"

definition da_x :: "drawArea \<Rightarrow> real \<Rightarrow> real" where
  "da_x da u =
     u * (point.x (rect_max (drawArea.rect da)) - point.x (rect.min (drawArea.rect da)))
       + point.x (rect.min (drawArea.rect da))"

definition da_y :: "drawArea \<Rightarrow> real \<Rightarrow> real" where
  "da_y da u =
     u * (point.y (rect_max (drawArea.rect da)) - point.y (rect.min (drawArea.rect da)))
       + point.y (rect.min (drawArea.rect da))"

section \<open>Clipping\<close>

text \<open>\<^verbatim>\<open>const slop = 3e-8\<close>, and the four membership tests.\<close>

definition slop :: real where
  "slop = 3 / 100000000"

definition isLeft :: "point \<Rightarrow> point \<Rightarrow> bool" where
  "isLeft p clp \<longleftrightarrow> point.x p \<le> point.x clp + slop"

definition isRight :: "point \<Rightarrow> point \<Rightarrow> bool" where
  "isRight p clp \<longleftrightarrow> point.x p \<ge> point.x clp - slop"

definition isBelow :: "point \<Rightarrow> point \<Rightarrow> bool" where
  "isBelow p clp \<longleftrightarrow> point.y p \<le> point.y clp + slop"

definition isAbove :: "point \<Rightarrow> point \<Rightarrow> bool" where
  "isAbove p clp \<longleftrightarrow> point.y p \<ge> point.y clp - slop"

text \<open>
  The intersection of the line through \<open>p0\<close> and \<open>p1\<close> with the clipping line. The
  division is the division of \<^typ>\<open>real\<close>; \<^verbatim>\<open>clip\<close> calls \<^verbatim>\<open>isect\<close> only for two points on
  different sides of the membership test, where the divisor is not zero for the four
  tests above with their normals (lemma \<open>isect_divisor\<close> below).
\<close>

definition isect :: "point \<Rightarrow> point \<Rightarrow> point \<Rightarrow> point \<Rightarrow> point" where
  "isect p0 p1 clp nrm =
     (let t = dot (minus_pt p0 clp) nrm / dot (minus_pt p0 p1) nrm
      in plus_pt (scale_pt (minus_pt p1 p0) t) p0)"

text \<open>
  One iteration of the loop of \<^verbatim>\<open>clip\<close>, on the pair \<open>cur\<close>, \<open>nxt\<close>: the switch and the
  test after it. \<open>isLast\<close> is \<^verbatim>\<open>i == len(pts)-1\<close>; \<open>l\<close> is the open run and \<open>lines\<close> the
  closed runs.
\<close>

definition clip_step ::
  "(point \<Rightarrow> point \<Rightarrow> bool) \<Rightarrow> point \<Rightarrow> point \<Rightarrow> point \<Rightarrow> point \<Rightarrow> bool \<Rightarrow>
     point list \<times> point list list \<Rightarrow> point list \<times> point list list" where
  "clip_step inside clp nrm cur nxt isLast st =
     (let l = fst st; lines = snd st;
          curIn = inside cur clp; nextIn = inside nxt clp;
          st1 = (if curIn \<and> nextIn then (l @ [cur], lines)
                 else if curIn \<and> \<not> nextIn then ([], lines @ [l @ [cur, isect cur nxt clp nrm]])
                 else if \<not> curIn \<and> \<not> nextIn then (l, lines)
                 else (l @ [isect cur nxt clp nrm], lines))
      in if nextIn \<and> isLast then (fst st1 @ [nxt], snd st1) else st1)"

text \<open>The loop \<^verbatim>\<open>for i := 1; i < len(pts); i++\<close>, on the points from \<^verbatim>\<open>pts[i-1]\<close> on.\<close>

fun clip_loop ::
  "(point \<Rightarrow> point \<Rightarrow> bool) \<Rightarrow> point \<Rightarrow> point \<Rightarrow> point list \<Rightarrow>
     point list \<times> point list list \<Rightarrow> point list \<times> point list list" where
  "clip_loop inside clp nrm (cur # nxt # rest) st =
     clip_loop inside clp nrm (nxt # rest)
       (clip_step inside clp nrm cur nxt (rest = []) st)"
| "clip_loop inside clp nrm [p] st = st"
| "clip_loop inside clp nrm [] st = st"

definition clip ::
  "(point \<Rightarrow> point \<Rightarrow> bool) \<Rightarrow> point \<Rightarrow> point \<Rightarrow> point list \<Rightarrow> point list list" where
  "clip inside clp nrm pts =
     (let st = clip_loop inside clp nrm pts ([], [])
      in if length (fst st) > 1 then snd st @ [fst st] else snd st)"

text \<open>
  The four clips of \<^verbatim>\<open>strokeClippedLine\<close>: right, bottom, left, top. The value is the
  list \<^verbatim>\<open>lines1\<close> that the last loop of the function strokes. The source reuses the two
  slices \<^verbatim>\<open>lines0\<close> and \<^verbatim>\<open>lines1\<close> with \<^verbatim>\<open>[:0]\<close>; each is only written while the other is
  read, so each stage is the concatenation of the clips of the runs of the stage before.
\<close>

definition clipLines :: "drawArea \<Rightarrow> point list \<Rightarrow> point list list" where
  "clipLines da pts =
     (let r = drawArea.rect da;
          lines0 = clip isLeft
                     \<lparr>point.x = point.x (rect_max r), point.y = point.y (rect.min r)\<rparr>
                     \<lparr>point.x = - 1, point.y = 0\<rparr> pts;
          lines1 = concat (map (clip isAbove
                     \<lparr>point.x = point.x (rect.min r), point.y = point.y (rect.min r)\<rparr>
                     \<lparr>point.x = 0, point.y = - 1\<rparr>) lines0);
          lines2 = concat (map (clip isRight
                     \<lparr>point.x = point.x (rect.min r), point.y = point.y (rect.min r)\<rparr>
                     \<lparr>point.x = 1, point.y = 0\<rparr>) lines1);
          lines3 = concat (map (clip isBelow
                     \<lparr>point.x = point.x (rect.min r), point.y = point.y (rect_max r)\<rparr>
                     \<lparr>point.x = 0, point.y = 1\<rparr>) lines2)
      in lines3)"

section \<open>Squishing\<close>

text \<open>
  The state of the loop of \<^verbatim>\<open>squishX\<close> and \<^verbatim>\<open>squishY\<close>: the anchors \<^verbatim>\<open>left\<close>, \<^verbatim>\<open>right\<close>
  (\<^verbatim>\<open>bot\<close>, \<^verbatim>\<open>top\<close>) and the running extremes \<^verbatim>\<open>minx\<close>, \<^verbatim>\<open>maxx\<close> (\<^verbatim>\<open>miny\<close>, \<^verbatim>\<open>maxy\<close>). The
  extremes start at \<open>+Inf\<close> and \<open>-Inf\<close>, here \<open>None\<close>: every finite value is below the one
  and above the other.
\<close>

record extremes =
  left :: real
  right :: real
  minx :: "real option"
  maxx :: "real option"

definition below_ext :: "real \<Rightarrow> real option \<Rightarrow> bool" where
  "below_ext v m = (case m of None \<Rightarrow> True | Some w \<Rightarrow> v < w)"

definition above_ext :: "real \<Rightarrow> real option \<Rightarrow> bool" where
  "above_ext v m = (case m of None \<Rightarrow> True | Some w \<Rightarrow> v > w)"

definition zeroBox :: glyphBox where
  "zeroBox =
     \<lparr>glyphBox.x = 0, glyphBox.y = 0,
      glyphBox.rect = \<lparr>rect.min = \<lparr>point.x = 0, point.y = 0\<rparr>,
                       rect.size = \<lparr>point.x = 0, point.y = 0\<rparr>\<rparr>\<rparr>"

text \<open>The body of the loop over the boxes, for one box.\<close>

definition squishX_step :: "drawArea \<Rightarrow> extremes \<Rightarrow> glyphBox \<Rightarrow> extremes" where
  "squishX_step da st b =
     (let lo = da_x da (glyphBox.x b) + point.x (rect.min (glyphBox.rect b));
          st1 = (if below_ext lo (minx st)
                 then st\<lparr>left := glyphBox.x b, minx := Some lo\<rparr> else st);
          hi = da_x da (glyphBox.x b) + point.x (rect.min (glyphBox.rect b))
                 + point.x (rect.size (glyphBox.rect b))
      in if above_ext hi (maxx st1)
         then st1\<lparr>right := glyphBox.x b, maxx := Some hi\<rparr> else st1)"

definition squishY_step :: "drawArea \<Rightarrow> extremes \<Rightarrow> glyphBox \<Rightarrow> extremes" where
  "squishY_step da st b =
     (let lo = da_y da (glyphBox.y b) + point.y (rect.min (glyphBox.rect b));
          st1 = (if below_ext lo (minx st)
                 then st\<lparr>left := glyphBox.y b, minx := Some lo\<rparr> else st);
          hi = da_y da (glyphBox.y b) + point.y (rect.min (glyphBox.rect b))
                 + point.y (rect.size (glyphBox.rect b))
      in if above_ext hi (maxx st1)
         then st1\<lparr>right := glyphBox.y b, maxx := Some hi\<rparr> else st1)"

definition start :: extremes where
  "start = \<lparr>left = 0, right = 0, minx = None, maxx = None\<rparr>"

text \<open>The two clamps that follow the loop.\<close>

definition clamp_min :: "real option \<Rightarrow> real \<Rightarrow> real" where
  "clamp_min m lo = (case m of None \<Rightarrow> lo | Some v \<Rightarrow> if v \<ge> lo then lo else v)"

definition clamp_max :: "real option \<Rightarrow> real \<Rightarrow> real" where
  "clamp_max m hi = (case m of None \<Rightarrow> hi | Some v \<Rightarrow> if v \<le> hi then hi else v)"

text \<open>
  \<^verbatim>\<open>squishX\<close>. With no box the area itself is returned. The new area shares the canvas.
  When \<^verbatim>\<open>left = right\<close> the source divides by zero and the coordinates of the area it
  returns are not finite: the model returns \<open>None\<close>.
\<close>

definition squishX :: "drawArea \<Rightarrow> glyphBox list \<Rightarrow> drawArea option" where
  "squishX da boxes =
     (if boxes = [] then Some da
      else
        let boxes1 = boxes @ [zeroBox, zeroBox\<lparr>glyphBox.x := 1\<rparr>];
            st = foldl (squishX_step da) start boxes1;
            r0 = drawArea.rect da;
            mn = clamp_min (minx st) (point.x (rect.min r0));
            mx = clamp_max (maxx st) (point.x (rect_max r0));
            l = point.x (rect.min r0) + (point.x (rect.min r0) - mn);
            r = point.x (rect_max r0) - (mx - point.x (rect_max r0))
        in if left st - right st = 0 then None
           else
             let n = (left st * r - right st * l) / (left st - right st);
                 m = ((left st - 1) * r - right st * l + l) / (left st - right st)
             in Some (da\<lparr>drawArea.rect :=
                  \<lparr>rect.min = \<lparr>point.x = n, point.y = point.y (rect.min r0)\<rparr>,
                   rect.size = \<lparr>point.x = m - n, point.y = point.y (rect.size r0)\<rparr>\<rparr>\<rparr>))"

definition squishY :: "drawArea \<Rightarrow> glyphBox list \<Rightarrow> drawArea option" where
  "squishY da boxes =
     (if boxes = [] then Some da
      else
        let boxes1 = boxes @ [zeroBox, zeroBox\<lparr>glyphBox.y := 1\<rparr>];
            st = foldl (squishY_step da) start boxes1;
            r0 = drawArea.rect da;
            mn = clamp_min (minx st) (point.y (rect.min r0));
            mx = clamp_max (maxx st) (point.y (rect_max r0));
            b = point.y (rect.min r0) + (point.y (rect.min r0) - mn);
            t = point.y (rect_max r0) - (mx - point.y (rect_max r0))
        in if left st - right st = 0 then None
           else
             let n = (left st * t - right st * b) / (left st - right st);
                 m = ((left st - 1) * t - right st * b + b) / (left st - right st)
             in Some (da\<lparr>drawArea.rect :=
                  \<lparr>rect.min = \<lparr>point.x = point.x (rect.min r0), point.y = n\<rparr>,
                   rect.size = \<lparr>point.x = point.x (rect.size r0), point.y = m - n\<rparr>\<rparr>\<rparr>))"

section \<open>Drawing\<close>

definition issue :: "drawArea \<Rightarrow> command list \<Rightarrow> drawArea" where
  "issue da cs = da\<lparr>Canvas := Canvas da @ cs\<rparr>"

definition setLineStyle :: "drawArea \<Rightarrow> LineStyle \<Rightarrow> drawArea" where
  "setLineStyle da sty =
     issue da [SetColor (LineStyle.Color sty), SetLineWidth (Width sty),
               SetLineDash (Dashes sty) (DashOffs sty)]"



text \<open>
  What \<^verbatim>\<open>drawGlyph\<close> uses of the canvas library and of the rest of the package, none of
  it in the source files at hand: \<^verbatim>\<open>vg.Points\<close>, \<^verbatim>\<open>vg.MakeFont\<close> (an error or a font), the
  width of a string and the descent of a font, and the package constant \<^verbatim>\<open>defaultFont\<close>.
  They are parameters of the model.
\<close>

record extern =
  Points :: "real \<Rightarrow> real"
  MakeFont :: "string \<Rightarrow> real \<Rightarrow> string + font"
  FontWidth :: "font \<Rightarrow> string \<Rightarrow> real"
  Descent :: "font \<Rightarrow> real"
  defaultFont :: string

text \<open>A panic carries the error of \<^verbatim>\<open>MakeFont\<close> or a message.\<close>

datatype panic = PanicError string | PanicMessage string

text \<open>\<^verbatim>\<open>fmt.Sprintf("%d", n)\<close> for an unsigned \<open>n\<close>: the decimal digits.\<close>

definition digit :: "nat \<Rightarrow> char" where
  "digit n = ''0123456789'' ! n"

function decimal :: "nat \<Rightarrow> string" where
  "decimal n = (if n < 10 then [digit n] else decimal (n div 10) @ [digit (n mod 10)])"
  by pat_completeness auto
termination
  by (relation "measure id") auto

declare decimal.simps [simp del]

text \<open>
  \<^verbatim>\<open>drawGlyph\<close> returns nothing; the model returns the panic, if there is one, and the
  area with the canvas as the call leaves it.
\<close>

definition drawGlyph ::
  "extern \<Rightarrow> drawArea \<Rightarrow> GlyphStyle \<Rightarrow> point \<Rightarrow> panic option \<times> drawArea" where
  "drawGlyph ext da sty pt =
     (if \<not> contains da pt then (None, da)
      else
        let da1 = setLineStyle da
                    \<lparr>LineStyle.Color = None, Width = Points ext (1 / 2),
                     Dashes = [], DashOffs = 0\<rparr>;
            da2 = issue da1 [SetColor (GlyphStyle.Color sty)];
            circle = [Move (point.x pt + Radius sty) (point.y pt),
                      Arc (point.x pt) (point.y pt) (Radius sty) 0 (2 * pi),
                      Close]
        in if Shape sty = CircleGlyph then (None, issue da2 [Fill circle])
           else if Shape sty = RingGlyph then (None, issue da2 [Stroke circle])
           else if Shape sty \<ge> 65 \<and> Shape sty \<le> 90 then
             (case MakeFont ext (defaultFont ext) (Radius sty * 2) of
                Inl err \<Rightarrow> (Some (PanicError err), da2)
              | Inr fnt \<Rightarrow>
                  let str = [char_of (unat (Shape sty))];
                      tx = point.x pt - FontWidth ext fnt str / 2;
                      ty = point.y pt + Descent ext fnt
                  in (None, issue da2 [FillText fnt tx ty str]))
           else (Some (PanicMessage (''Invalid GlyphShape: '' @ decimal (unat (Shape sty)))),
                 da2))"

section \<open>Predicates and inputs used in the statements\<close>

text \<open>A point passes the membership test of each of the four clips of an area.\<close>

definition insideAll :: "drawArea \<Rightarrow> point \<Rightarrow> bool" where
  "insideAll da p \<longleftrightarrow>
     isLeft p \<lparr>point.x = point.x (rect_max (drawArea.rect da)),
               point.y = point.y (rect.min (drawArea.rect da))\<rparr> \<and>
     isAbove p \<lparr>point.x = point.x (rect.min (drawArea.rect da)),
                point.y = point.y (rect.min (drawArea.rect da))\<rparr> \<and>
     isRight p \<lparr>point.x = point.x (rect.min (drawArea.rect da)),
                point.y = point.y (rect.min (drawArea.rect da))\<rparr> \<and>
     isBelow p \<lparr>point.x = point.x (rect.min (drawArea.rect da)),
                point.y = point.y (rect_max (drawArea.rect da))\<rparr>"



text \<open>
  The absolute left and right edge of the footprint of a glyph box under the mapping of
  an area, as \<^verbatim>\<open>squishX\<close> computes them in its loop.
\<close>

definition leftEdge :: "drawArea \<Rightarrow> glyphBox \<Rightarrow> real" where
  "leftEdge da b = da_x da (glyphBox.x b) + point.x (rect.min (glyphBox.rect b))"

definition rightEdge :: "drawArea \<Rightarrow> glyphBox \<Rightarrow> real" where
  "rightEdge da b = da_x da (glyphBox.x b) + point.x (rect.min (glyphBox.rect b))
                      + point.x (rect.size (glyphBox.rect b))"

text \<open>The commands that put ink on the canvas.\<close>

definition draws :: "command \<Rightarrow> bool" where
  "draws c =
     (case c of Fill _ \<Rightarrow> True | Stroke _ \<Rightarrow> True | FillText _ _ _ _ \<Rightarrow> True | _ \<Rightarrow> False)"

text \<open>Two areas with an empty canvas, of 10 by 10 and of 100 by 100, both at the origin.\<close>

definition area10 :: drawArea where
  "area10 = \<lparr>Canvas = [], drawArea.rect =
     \<lparr>rect.min = \<lparr>point.x = 0, point.y = 0\<rparr>, rect.size = \<lparr>point.x = 10, point.y = 10\<rparr>\<rparr>\<rparr>"

definition area100 :: drawArea where
  "area100 = \<lparr>Canvas = [], drawArea.rect =
     \<lparr>rect.min = \<lparr>point.x = 0, point.y = 0\<rparr>, rect.size = \<lparr>point.x = 100, point.y = 100\<rparr>\<rparr>\<rparr>"

text \<open>A canvas library whose \<^verbatim>\<open>MakeFont\<close> always fails.\<close>

definition noFonts :: extern where
  "noFonts = \<lparr>Points = (\<lambda>p. p), MakeFont = (\<lambda>n s. Inl ''no font''),
              FontWidth = (\<lambda>f s. 0), Descent = (\<lambda>f. 0), defaultFont = ''Times-Roman''\<rparr>"

definition glyph200 :: GlyphStyle where
  "glyph200 = \<lparr>GlyphStyle.Color = None, Shape = 200, Radius = 1\<rparr>"

text \<open>An area with an empty canvas that spans \<open>lo\<close> to \<open>lo + w\<close> in x and 0 to 100 in y.\<close>

definition xArea :: "real \<Rightarrow> real \<Rightarrow> drawArea" where
  "xArea lo w = \<lparr>Canvas = [], drawArea.rect =
     \<lparr>rect.min = \<lparr>point.x = lo, point.y = 0\<rparr>, rect.size = \<lparr>point.x = w, point.y = 100\<rparr>\<rparr>\<rparr>"

text \<open>
  Three glyph boxes: one anchored at 1/2 that reaches 75 to the left of its anchor, one
  anchored at 3/4 that reaches 50 to the right, and one anchored at 1/2 that reaches 50
  to the left.
\<close>

definition wideLeftBox :: glyphBox where
  "wideLeftBox = \<lparr>glyphBox.x = 1 / 2, glyphBox.y = 0, glyphBox.rect =
     \<lparr>rect.min = \<lparr>point.x = - 75, point.y = 0\<rparr>, rect.size = \<lparr>point.x = 10, point.y = 0\<rparr>\<rparr>\<rparr>"

definition wideRightBox :: glyphBox where
  "wideRightBox = \<lparr>glyphBox.x = 3 / 4, glyphBox.y = 0, glyphBox.rect =
     \<lparr>rect.min = \<lparr>point.x = 0, point.y = 0\<rparr>, rect.size = \<lparr>point.x = 50, point.y = 0\<rparr>\<rparr>\<rparr>"

definition touchingBox :: glyphBox where
  "touchingBox = \<lparr>glyphBox.x = 1 / 2, glyphBox.y = 0, glyphBox.rect =
     \<lparr>rect.min = \<lparr>point.x = - 50, point.y = 0\<rparr>, rect.size = \<lparr>point.x = 10, point.y = 0\<rparr>\<rparr>\<rparr>"


section \<open>Properties of the mapping\<close>


section \<open>Properties of the clipper\<close>

lemma clip_step_lines_ge2:
  "\<forall>r\<in>set (snd st). 2 \<le> length r \<Longrightarrow>
   \<forall>r\<in>set (snd (clip_step inside c n cur nxt isLast st)). 2 \<le> length r"
  by (auto simp: clip_step_def Let_def)

lemma clip_loop_lines_ge2:
  "\<forall>r\<in>set (snd st). 2 \<le> length r \<Longrightarrow>
   \<forall>r\<in>set (snd (clip_loop inside c n pts st)). 2 \<le> length r"
proof (induction inside c n pts st rule: clip_loop.induct)
  case (1 inside clp nrm cur nxt rest st)
  then show ?case using clip_step_lines_ge2 by simp
qed simp_all

text \<open>
  C6. Whatever the polyline and the half-plane (membership test, clip point and normal),
  every run that \<^verbatim>\<open>clip\<close> returns has at least two points: no empty run and no run of a
  single point.
\<close>

theorem clip_runs_two_points:
  "l \<in> set (clip inside clp nrm pts) \<Longrightarrow> 2 \<le> length l"
  using clip_loop_lines_ge2 [of "([], [])" inside clp nrm pts]
  by (auto simp: clip_def Let_def split: if_splits)

theorem clip_runs_two_points_witness:
  "[\<lparr>point.x = - 5, point.y = 5\<rparr>, \<lparr>point.x = 10, point.y = 5\<rparr>]
     \<in> set (clip isLeft \<lparr>point.x = 10, point.y = 0\<rparr> \<lparr>point.x = - 1, point.y = 0\<rparr>
              [\<lparr>point.x = - 5, point.y = 5\<rparr>, \<lparr>point.x = 15, point.y = 5\<rparr>]) \<and>
   2 \<le> length [\<lparr>point.x = - 5, point.y = 5\<rparr>, \<lparr>point.x = 10, point.y = (5::real)\<rparr>]"
  using clip_runs_two_points
    [of "[\<lparr>point.x = - 5, point.y = 5\<rparr>, \<lparr>point.x = 10, point.y = 5\<rparr>]"
        isLeft "\<lparr>point.x = 10, point.y = 0\<rparr>" "\<lparr>point.x = - 1, point.y = 0\<rparr>"
        "[\<lparr>point.x = - 5, point.y = 5\<rparr>, \<lparr>point.x = 15, point.y = 5\<rparr>]"]
  by (simp add: clip_def clip_step_def isect_def isLeft_def slop_def dot_def minus_pt_def
      plus_pt_def scale_pt_def Let_def)

text \<open>A polyline of points that all pass the test comes back as the one run.\<close>

lemma clip_loop_all_in:
  "\<forall>p\<in>set (p0 # ps). inside p c \<Longrightarrow> ps \<noteq> [] \<Longrightarrow>
   clip_loop inside c n (p0 # ps) (l, lines) = (l @ p0 # ps, lines)"
proof (induction ps arbitrary: p0 l)
  case Nil
  then show ?case by simp
next
  case (Cons q qs)
  show ?case
  proof (cases qs)
    case Nil
    with Cons.prems show ?thesis by (simp add: clip_step_def)
  next
    case (Cons r rs)
    with Cons.prems Cons.IH [of q "l @ [p0]"] show ?thesis
      by (simp add: clip_step_def)
  qed
qed

lemma clip_all_in:
  assumes "\<forall>p\<in>set pts. inside p c" and "2 \<le> length pts"
  shows "clip inside c n pts = [pts]"
proof -
  from assms(2) obtain p0 ps where pts: "pts = p0 # ps" and ps: "ps \<noteq> []"
    by (cases pts) force+
  with assms(1) have "clip_loop inside c n pts ([], []) = (pts, [])"
    using clip_loop_all_in [of p0 ps inside c n "[]" "[]"] by simp
  with assms(2) show ?thesis by (simp add: clip_def)
qed



text \<open>A point that the area contains passes the four tests.\<close>

lemma contains_insideAll: "contains da p \<Longrightarrow> insideAll da p"
  by (simp add: contains_def insideAll_def isLeft_def isRight_def isAbove_def isBelow_def
      slop_def)

text \<open>
  C5. A polyline of at least two points, each of which passes the membership test of
  every edge of the area, comes out of the four clips as exactly one run, the polyline
  itself, point for point and in order.
\<close>

theorem clipLines_inside:
  assumes "2 \<le> length pts" and "\<forall>p\<in>set pts. insideAll da p"
  shows "clipLines da pts = [pts]"
  using assms by (simp add: clipLines_def insideAll_def clip_all_in)

theorem clipLines_inside_witness:
  "2 \<le> length [\<lparr>point.x = 1, point.y = 1\<rparr>, \<lparr>point.x = 2, point.y = 3\<rparr>,
                \<lparr>point.x = 10, point.y = 10\<rparr>] \<and>
   insideAll area10 \<lparr>point.x = 1, point.y = 1\<rparr> \<and>
   insideAll area10 \<lparr>point.x = 2, point.y = 3\<rparr> \<and>
   insideAll area10 \<lparr>point.x = 10, point.y = 10\<rparr> \<and>
   clipLines area10 [\<lparr>point.x = 1, point.y = 1\<rparr>, \<lparr>point.x = 2, point.y = 3\<rparr>,
                     \<lparr>point.x = 10, point.y = 10\<rparr>]
     = [[\<lparr>point.x = 1, point.y = 1\<rparr>, \<lparr>point.x = 2, point.y = 3\<rparr>,
         \<lparr>point.x = 10, point.y = 10\<rparr>]]"
  using clipLines_inside
    [of "[\<lparr>point.x = 1, point.y = 1\<rparr>, \<lparr>point.x = 2, point.y = 3\<rparr>,
          \<lparr>point.x = 10, point.y = 10\<rparr>]" area10]
  by (simp add: insideAll_def area10_def rect_max_def isLeft_def isRight_def isAbove_def
      isBelow_def slop_def)

section \<open>Polylines outside the area\<close>

text \<open>
  The divisor in \<^verbatim>\<open>isect\<close> is not zero where \<^verbatim>\<open>clip\<close> calls it from \<^verbatim>\<open>strokeClippedLine\<close>:
  the two points are on different sides of the membership test.
\<close>

lemma isect_divisor:
  "isLeft p c \<noteq> isLeft q c \<Longrightarrow> dot (minus_pt p q) \<lparr>point.x = - 1, point.y = 0\<rparr> \<noteq> 0"
  "isAbove p c \<noteq> isAbove q c \<Longrightarrow> dot (minus_pt p q) \<lparr>point.x = 0, point.y = - 1\<rparr> \<noteq> 0"
  "isRight p c \<noteq> isRight q c \<Longrightarrow> dot (minus_pt p q) \<lparr>point.x = 1, point.y = 0\<rparr> \<noteq> 0"
  "isBelow p c \<noteq> isBelow q c \<Longrightarrow> dot (minus_pt p q) \<lparr>point.x = 0, point.y = 1\<rparr> \<noteq> 0"
  by (auto simp: isLeft_def isAbove_def isRight_def isBelow_def dot_def minus_pt_def)

























text \<open>The definitions of the clipper, for evaluating it on given points.\<close>

lemmas clip_eval = clipLines_def clip_def clip_step_def isect_def rect_max_def isLeft_def
  isRight_def isAbove_def isBelow_def slop_def dot_def minus_pt_def plus_pt_def scale_pt_def
  Let_def


text \<open>
  Two more polylines whose points are all outside the area. The first is the example of
  the specification: the segment crosses the area and its inner part is kept, as a
  clipper should. The second lies above the area, at \<open>y \<ge> 11\<close>, and its first point is in
  the tolerance band of the right edge: \<^verbatim>\<open>isect\<close> intersects with the edge itself and not
  with the edge moved out by \<open>slop\<close>, so the intersection falls behind the first point, on
  the far side of the segment, and after the top clip a run from \<open>(10 + 2 ^ -27, 10)\<close> to
  \<open>(10, 9)\<close> is left, which is no part of the polyline. This is why the amended claim
  excludes points in the tolerance bands.
\<close>

lemma clipLines_crossing_example:
  "clipLines area10 [\<lparr>point.x = - 5, point.y = 5\<rparr>, \<lparr>point.x = 15, point.y = 5\<rparr>] =
     [[\<lparr>point.x = 0, point.y = 5\<rparr>, \<lparr>point.x = 10, point.y = 5\<rparr>]]"
  by (simp add: clip_eval area10_def)

lemma clipLines_band_example:
  "clipLines area10
     [\<lparr>point.x = 10 + 1 / 2 ^ 26, point.y = 11\<rparr>, \<lparr>point.x = 10 + 5 / 2 ^ 26, point.y = 19\<rparr>] =
     [[\<lparr>point.x = 10 + 1 / 2 ^ 27, point.y = 10\<rparr>, \<lparr>point.x = 10, point.y = 9\<rparr>]]"
  by (simp add: clip_eval area10_def)

section \<open>Properties of squishing\<close>

text \<open>
  C7. \<^verbatim>\<open>squishX\<close> of no boxes returns the area it was given, and so does \<^verbatim>\<open>squishY\<close>.
\<close>

theorem squish_empty: "squishX da [] = Some da \<and> squishY da [] = Some da"
  by (simp add: squishX_def squishY_def)

text \<open>
  The new rectangle is the solution of two linear equations: under the mapping of the
  area that \<^verbatim>\<open>squishX\<close> returns, the anchor \<^verbatim>\<open>left\<close> goes to \<^verbatim>\<open>l\<close> and the anchor \<^verbatim>\<open>right\<close>
  to \<^verbatim>\<open>r\<close>.
\<close>

lemma affine_solve:
  fixes a b l r n m :: real
  assumes "a \<noteq> b"
    and n: "n = (a * r - b * l) / (a - b)"
    and m: "m = ((a - 1) * r - b * l + l) / (a - b)"
  shows "a * (m - n) + n = l" and "b * (m - n) + n = r"
proof -
  have d: "a - b \<noteq> 0" using assms(1) by simp
  have e: "m - n = (l - r) / (a - b)"
    unfolding n m by (simp add: diff_divide_distrib [symmetric] algebra_simps)
  have "a * (m - n) + n = (a * (l - r) + (a * r - b * l)) / (a - b)"
    unfolding e unfolding n by (simp add: add_divide_distrib)
  also have "\<dots> = (l * (a - b)) / (a - b)" by (simp add: algebra_simps)
  also have "\<dots> = l" using d by simp
  finally show "a * (m - n) + n = l" .
  have "b * (m - n) + n = (b * (l - r) + (a * r - b * l)) / (a - b)"
    unfolding e unfolding n by (simp add: add_divide_distrib)
  also have "\<dots> = (r * (a - b)) / (a - b)" by (simp add: algebra_simps)
  also have "\<dots> = r" using d by simp
  finally show "b * (m - n) + n = r" .
qed

lemma da_x_of_rect:
  "da_x (da\<lparr>drawArea.rect := \<lparr>rect.min = \<lparr>point.x = n, point.y = v\<rparr>,
                                rect.size = \<lparr>point.x = m - n, point.y = w\<rparr>\<rparr>\<rparr>) u = u * (m - n) + n"
  by (simp add: da_x_def rect_max_def)

lemma squishX_anchor_images:
  assumes "boxes \<noteq> []"
    and "st = foldl (squishX_step da) start (boxes @ [zeroBox, zeroBox\<lparr>glyphBox.x := 1\<rparr>])"
    and "left st \<noteq> right st"
  shows "\<exists>da'. squishX da boxes = Some da' \<and>
           da_x da' (left st) =
             point.x (rect.min (drawArea.rect da)) +
               (point.x (rect.min (drawArea.rect da)) -
                  clamp_min (minx st) (point.x (rect.min (drawArea.rect da)))) \<and>
           da_x da' (right st) =
             point.x (rect_max (drawArea.rect da)) -
               (clamp_max (maxx st) (point.x (rect_max (drawArea.rect da))) -
                  point.x (rect_max (drawArea.rect da)))"
proof -
  define l where "l = point.x (rect.min (drawArea.rect da)) +
               (point.x (rect.min (drawArea.rect da)) -
                  clamp_min (minx st) (point.x (rect.min (drawArea.rect da))))"
  define r where "r = point.x (rect_max (drawArea.rect da)) -
               (clamp_max (maxx st) (point.x (rect_max (drawArea.rect da))) -
                  point.x (rect_max (drawArea.rect da)))"
  define n where "n = (left st * r - right st * l) / (left st - right st)"
  define m where "m = ((left st - 1) * r - right st * l + l) / (left st - right st)"
  define da' where "da' = da\<lparr>drawArea.rect :=
      \<lparr>rect.min = \<lparr>point.x = n, point.y = point.y (rect.min (drawArea.rect da))\<rparr>,
       rect.size = \<lparr>point.x = m - n, point.y = point.y (rect.size (drawArea.rect da))\<rparr>\<rparr>\<rparr>"
  have d: "left st - right st \<noteq> 0" using assms(3) by simp
  have sq: "squishX da boxes = Some da'"
    unfolding squishX_def Let_def assms(2) [symmetric] da'_def m_def n_def l_def r_def
    using assms(1) d by (simp only: if_False)
  have "da_x da' (left st) = l" "da_x da' (right st) = r"
    unfolding da'_def da_x_of_rect
    using affine_solve [OF assms(3) n_def m_def] by simp_all
  with sq show ?thesis unfolding l_def r_def by blast
qed

text \<open>
  The loop finds the extremes: \<^verbatim>\<open>minx\<close> is the least left edge and \<^verbatim>\<open>left\<close> the anchor of a
  box that has it, \<^verbatim>\<open>maxx\<close> is the greatest right edge and \<^verbatim>\<open>right\<close> the anchor of a box that
  has it.
\<close>

lemma squishX_step_fields:
  "left (squishX_step da st b) = (if below_ext (leftEdge da b) (minx st) then glyphBox.x b else left st)"
  "minx (squishX_step da st b) = (if below_ext (leftEdge da b) (minx st) then Some (leftEdge da b) else minx st)"
  "right (squishX_step da st b) = (if above_ext (rightEdge da b) (maxx st) then glyphBox.x b else right st)"
  "maxx (squishX_step da st b) = (if above_ext (rightEdge da b) (maxx st) then Some (rightEdge da b) else maxx st)"
  by (simp_all add: squishX_step_def leftEdge_def rightEdge_def Let_def)

lemma foldl_squishX_min:
  assumes "bs \<noteq> []"
  shows "\<exists>b\<in>set bs. left (foldl (squishX_step da) start bs) = glyphBox.x b \<and>
           minx (foldl (squishX_step da) start bs) = Some (leftEdge da b) \<and>
           (\<forall>c\<in>set bs. leftEdge da b \<le> leftEdge da c)"
  using assms
proof (induction bs rule: rev_nonempty_induct)
  case (single b)
  then show ?case by (simp add: squishX_step_fields start_def below_ext_def)
next
  case (snoc b bs)
  then obtain b0 where b0: "b0 \<in> set bs"
      "left (foldl (squishX_step da) start bs) = glyphBox.x b0"
      "minx (foldl (squishX_step da) start bs) = Some (leftEdge da b0)"
      "\<forall>c\<in>set bs. leftEdge da b0 \<le> leftEdge da c"
    by blast
  show ?case
  proof (cases "leftEdge da b < leftEdge da b0")
    case True
    with b0 have "left (foldl (squishX_step da) start (bs @ [b])) = glyphBox.x b \<and>
           minx (foldl (squishX_step da) start (bs @ [b])) = Some (leftEdge da b) \<and>
           (\<forall>c\<in>set (bs @ [b]). leftEdge da b \<le> leftEdge da c)"
      by (auto simp: squishX_step_fields below_ext_def)
    then show ?thesis by auto
  next
    case False
    with b0 have "left (foldl (squishX_step da) start (bs @ [b])) = glyphBox.x b0 \<and>
           minx (foldl (squishX_step da) start (bs @ [b])) = Some (leftEdge da b0) \<and>
           (\<forall>c\<in>set (bs @ [b]). leftEdge da b0 \<le> leftEdge da c)"
      by (auto simp: squishX_step_fields below_ext_def)
    with b0(1) show ?thesis by auto
  qed
qed

lemma foldl_squishX_max:
  assumes "bs \<noteq> []"
  shows "\<exists>b\<in>set bs. right (foldl (squishX_step da) start bs) = glyphBox.x b \<and>
           maxx (foldl (squishX_step da) start bs) = Some (rightEdge da b) \<and>
           (\<forall>c\<in>set bs. rightEdge da c \<le> rightEdge da b)"
  using assms
proof (induction bs rule: rev_nonempty_induct)
  case (single b)
  then show ?case by (simp add: squishX_step_fields start_def above_ext_def)
next
  case (snoc b bs)
  then obtain b0 where b0: "b0 \<in> set bs"
      "right (foldl (squishX_step da) start bs) = glyphBox.x b0"
      "maxx (foldl (squishX_step da) start bs) = Some (rightEdge da b0)"
      "\<forall>c\<in>set bs. rightEdge da c \<le> rightEdge da b0"
    by blast
  show ?case
  proof (cases "rightEdge da b0 < rightEdge da b")
    case True
    with b0 have "right (foldl (squishX_step da) start (bs @ [b])) = glyphBox.x b \<and>
           maxx (foldl (squishX_step da) start (bs @ [b])) = Some (rightEdge da b) \<and>
           (\<forall>c\<in>set (bs @ [b]). rightEdge da c \<le> rightEdge da b)"
      by (auto simp: squishX_step_fields above_ext_def)
    then show ?thesis by auto
  next
    case False
    with b0 have "right (foldl (squishX_step da) start (bs @ [b])) = glyphBox.x b0 \<and>
           maxx (foldl (squishX_step da) start (bs @ [b])) = Some (rightEdge da b0) \<and>
           (\<forall>c\<in>set (bs @ [b]). rightEdge da c \<le> rightEdge da b0)"
      by (auto simp: squishX_step_fields above_ext_def)
    with b0(1) show ?thesis by auto
  qed
qed

lemma zeroBox_x: "glyphBox.x zeroBox = 0"
  by (simp add: zeroBox_def)

lemma edges_zeroBox:
  "leftEdge da zeroBox = point.x (rect.min (drawArea.rect da))"
  "rightEdge da zeroBox = point.x (rect.min (drawArea.rect da))"
  "leftEdge da (zeroBox\<lparr>glyphBox.x := 1\<rparr>) = point.x (rect_max (drawArea.rect da))"
  "rightEdge da (zeroBox\<lparr>glyphBox.x := 1\<rparr>) = point.x (rect_max (drawArea.rect da))"
  by (simp_all add: leftEdge_def rightEdge_def zeroBox_def da_x_def)

text \<open>
  Where the footprints of the two extreme boxes end up. The synthetic box at 0 makes
  \<^verbatim>\<open>minx\<close> at most the minimum of the area and the one at 1 makes \<^verbatim>\<open>maxx\<close> at least its
  maximum, so the clamps never change a value. The targets \<^verbatim>\<open>l\<close> and \<^verbatim>\<open>r\<close> are the edges
  moved inwards by the overhang; under the new mapping the left edge of the left extreme
  box is at \<open>min.x - left * size.x\<close> and the right edge of the right extreme box at
  \<open>max.x + (1 - right) * size.x\<close>: on the edges of the original area when the anchors
  are 0 and 1, and outside them for anchors in between.
\<close>

lemma squishX_extreme_footprints:
  assumes ne: "boxes \<noteq> []"
    and st: "st = foldl (squishX_step da) start (boxes @ [zeroBox, zeroBox\<lparr>glyphBox.x := 1\<rparr>])"
    and lr: "left st \<noteq> right st"
  shows "\<exists>da' bl br.
           squishX da boxes = Some da' \<and>
           bl \<in> set (boxes @ [zeroBox, zeroBox\<lparr>glyphBox.x := 1\<rparr>]) \<and>
           glyphBox.x bl = left st \<and> minx st = Some (leftEdge da bl) \<and>
           br \<in> set (boxes @ [zeroBox, zeroBox\<lparr>glyphBox.x := 1\<rparr>]) \<and>
           glyphBox.x br = right st \<and> maxx st = Some (rightEdge da br) \<and>
           leftEdge da' bl =
             point.x (rect.min (drawArea.rect da)) - left st * point.x (rect.size (drawArea.rect da)) \<and>
           rightEdge da' br =
             point.x (rect_max (drawArea.rect da)) +
               (1 - right st) * point.x (rect.size (drawArea.rect da))"
proof -
  let ?bs = "boxes @ [zeroBox, zeroBox\<lparr>glyphBox.x := 1\<rparr>]"
  let ?lo = "point.x (rect.min (drawArea.rect da))"
  let ?hi = "point.x (rect_max (drawArea.rect da))"
  have bs: "?bs \<noteq> []" by simp
  obtain bl where bl: "bl \<in> set ?bs" "left st = glyphBox.x bl" "minx st = Some (leftEdge da bl)"
      "\<forall>c\<in>set ?bs. leftEdge da bl \<le> leftEdge da c"
    using foldl_squishX_min [OF bs, of da] unfolding st by blast
  obtain br where br: "br \<in> set ?bs" "right st = glyphBox.x br" "maxx st = Some (rightEdge da br)"
      "\<forall>c\<in>set ?bs. rightEdge da c \<le> rightEdge da br"
    using foldl_squishX_max [OF bs, of da] unfolding st by blast
  have "leftEdge da bl \<le> leftEdge da zeroBox" using bl(4) by simp
  then have cl: "clamp_min (minx st) ?lo = leftEdge da bl"
    by (simp add: bl(3) clamp_min_def edges_zeroBox)
  have "rightEdge da (zeroBox\<lparr>glyphBox.x := 1\<rparr>) \<le> rightEdge da br" using br(4) by simp
  then have cr: "clamp_max (maxx st) ?hi = rightEdge da br"
    by (simp add: br(3) clamp_max_def edges_zeroBox)
  obtain da' where da': "squishX da boxes = Some da'"
      "da_x da' (left st) = ?lo + (?lo - clamp_min (minx st) ?lo)"
      "da_x da' (right st) = ?hi - (clamp_max (maxx st) ?hi - ?hi)"
    using squishX_anchor_images [OF ne st lr] by blast
  have l: "leftEdge da' bl = ?lo - left st * point.x (rect.size (drawArea.rect da))"
    using da'(2) unfolding cl
    by (simp add: leftEdge_def bl(2) [symmetric] da_x_def rect_max_def algebra_simps)
  have r: "rightEdge da' br = ?hi + (1 - right st) * point.x (rect.size (drawArea.rect da))"
    using da'(3) unfolding cr
    by (simp add: rightEdge_def br(2) [symmetric] da_x_def rect_max_def algebra_simps)
  show ?thesis
    using da'(1) bl(1,2,3) br(1,2,3) l r by auto
qed

text \<open>
  Boxes whose footprints lie strictly inside the bounds of an area of positive width leave
  the area as it is: the extremes are then the two synthetic boxes.
\<close>

lemma squishX_strictly_inside:
  assumes ne: "boxes \<noteq> []"
    and sz: "0 < point.x (rect.size (drawArea.rect da))"
    and ins: "\<forall>b\<in>set boxes. point.x (rect.min (drawArea.rect da)) < leftEdge da b \<and>
                rightEdge da b < point.x (rect_max (drawArea.rect da))"
  shows "squishX da boxes = Some da"
proof -
  let ?lo = "point.x (rect.min (drawArea.rect da))"
  let ?hi = "point.x (rect_max (drawArea.rect da))"
  let ?s0 = "foldl (squishX_step da) start boxes"
  let ?s1 = "squishX_step da ?s0 zeroBox"
  let ?s2 = "squishX_step da ?s1 (zeroBox\<lparr>glyphBox.x := 1\<rparr>)"
  have lh: "?lo < ?hi" using sz by (simp add: rect_max_def)
  obtain m0 where m0: "minx ?s0 = Some m0" "?lo < m0"
    using foldl_squishX_min [OF ne, of da] ins by auto
  obtain M0 where M0: "maxx ?s0 = Some M0" "M0 < ?hi"
    using foldl_squishX_max [OF ne, of da] ins by auto
  have s1: "left ?s1 = 0" "minx ?s1 = Some ?lo" "\<exists>M. maxx ?s1 = Some M \<and> M < ?hi"
    using m0 M0 lh
    by (auto simp: squishX_step_fields edges_zeroBox below_ext_def above_ext_def zeroBox_x)
  then obtain M1 where M1: "maxx ?s1 = Some M1" "M1 < ?hi" by blast
  have s2: "left ?s2 = 0" "right ?s2 = 1" "minx ?s2 = Some ?lo" "maxx ?s2 = Some ?hi"
    using s1(1,2) M1 lh
    by (simp_all add: squishX_step_fields edges_zeroBox below_ext_def above_ext_def)
  have f: "foldl (squishX_step da) start (boxes @ [zeroBox, zeroBox\<lparr>glyphBox.x := 1\<rparr>]) = ?s2"
    by simp
  have "squishX da boxes =
          Some (da\<lparr>drawArea.rect :=
             \<lparr>rect.min = \<lparr>point.x = ?lo, point.y = point.y (rect.min (drawArea.rect da))\<rparr>,
              rect.size = \<lparr>point.x = ?hi - ?lo, point.y = point.y (rect.size (drawArea.rect da))\<rparr>\<rparr>\<rparr>)"
    unfolding squishX_def Let_def f using ne
    by (simp add: s2 clamp_min_def clamp_max_def)
  also have "\<dots> = Some da"
    by (simp add: rect_max_def)
  finally show ?thesis .
qed

text \<open>The definitions of squishing, for evaluating it on given boxes.\<close>

lemmas squish_eval = squishX_def squishX_step_def start_def zeroBox_def below_ext_def
  above_ext_def clamp_min_def clamp_max_def da_x_def rect_max_def Let_def leftEdge_def
  rightEdge_def area100_def xArea_def

text \<open>
  C1 says that after \<^verbatim>\<open>squishX\<close> every box whose footprint exceeded the bounds of the area
  lies within them under the mapping of the new area. The code does otherwise at the 100
  by 100 area and the one box anchored at 1/2 that reaches 75 to the left. Under the
  area the left edge of the box is at \<open>-25\<close>, outside the bounds \<open>[0, 100]\<close>.
  \<^verbatim>\<open>squishX\<close> returns the area from \<open>-50\<close> to \<open>100\<close>, and under it the left edge of the box
  is at \<open>-50\<close>: still outside the original bounds, and further out than before.
\<close>

theorem squishX_box_still_outside:
  "area100 = xArea 0 100 \<and>
   leftEdge area100 wideLeftBox = - 25 \<and>
   squishX area100 [wideLeftBox] = Some (xArea (- 50) 150) \<and>
   leftEdge (xArea (- 50) 150) wideLeftBox = - 50"
  by (simp add: squish_eval wideLeftBox_def)

text \<open>
  C2 says that, when the two extreme anchors differ and no clamp applies, the new mapping
  puts the left edge of the left extreme box on the original minimum and the right edge
  of the right extreme box on the original maximum. The code does otherwise at the same
  area and two boxes, the one above and one anchored at 3/4 that reaches 50 to the
  right. The loop ends with \<open>left = 1/2\<close>, \<open>minx = -25\<close>, \<open>right = 3/4\<close> and
  \<open>maxx = 125\<close>, so the two anchors differ and neither clamp applies. Under the area
  that \<^verbatim>\<open>squishX\<close> returns, the left edge of the left box is at \<open>-50\<close> and not at the
  original minimum \<open>0\<close>, and the right edge of the right box is at \<open>125\<close> and not at the
  original maximum \<open>100\<close>.
\<close>

theorem squishX_extremes_off_edges:
  "foldl (squishX_step area100) start
     [wideLeftBox, wideRightBox, zeroBox, zeroBox\<lparr>glyphBox.x := 1\<rparr>] =
     \<lparr>left = 1 / 2, right = 3 / 4, minx = Some (- 25), maxx = Some 125\<rparr> \<and>
   squishX area100 [wideLeftBox, wideRightBox] = Some (xArea (- 75) 200) \<and>
   leftEdge (xArea (- 75) 200) wideLeftBox = - 50 \<and>
   rightEdge (xArea (- 75) 200) wideRightBox = 125 \<and>
   point.x (rect.min (drawArea.rect area100)) = 0 \<and>
   point.x (rect_max (drawArea.rect area100)) = 100"
  by (simp add: squish_eval wideLeftBox_def wideRightBox_def)

text \<open>
  C3 says that \<^verbatim>\<open>squishX\<close> returns the rectangle it was given when every footprint lies
  within the bounds of the area, the bounds included. The code does otherwise at the same
  area and the one box anchored at 1/2 that reaches 50 to the left: its footprint, from \<open>0\<close> to \<open>10\<close>, lies within the bounds \<open>[0, 100]\<close>. \<^verbatim>\<open>squishX\<close> does not
  return the area it was given but the area from \<open>-100\<close> to \<open>100\<close>, under which the left
  edge of the box is at \<open>-50\<close>.
\<close>

theorem squishX_touching_box_not_identity:
  "leftEdge area100 touchingBox = 0 \<and> rightEdge area100 touchingBox = 10 \<and>
   point.x (rect.min (drawArea.rect area100)) = 0 \<and>
   point.x (rect_max (drawArea.rect area100)) = 100 \<and>
   squishX area100 [touchingBox] = Some (xArea (- 100) 200) \<and>
   leftEdge (xArea (- 100) 200) touchingBox = - 50"
  by (simp add: squish_eval touchingBox_def)

section \<open>Properties of drawGlyph\<close>

text \<open>
  C9. For a point inside the area and a shape that is neither \<^verbatim>\<open>CircleGlyph\<close> nor
  \<^verbatim>\<open>RingGlyph\<close> nor an upper-case letter, \<^verbatim>\<open>drawGlyph\<close> panics with the message
  \<open>Invalid GlyphShape:\<close> followed by the shape in decimal. It has then sent the canvas
  the four settings of colour, line width and dashes, and nothing that draws: no path is
  filled or stroked and no text is filled.
\<close>

theorem drawGlyph_invalid_shape:
  assumes "contains da pt"
    and "Shape sty \<noteq> CircleGlyph" and "Shape sty \<noteq> RingGlyph"
    and "\<not> (65 \<le> Shape sty \<and> Shape sty \<le> 90)"
  shows "fst (drawGlyph ext da sty pt) =
           Some (PanicMessage (''Invalid GlyphShape: '' @ decimal (unat (Shape sty)))) \<and>
         snd (drawGlyph ext da sty pt) =
           issue da [SetColor None, SetLineWidth (Points ext (1 / 2)), SetLineDash [] 0,
                     SetColor (GlyphStyle.Color sty)] \<and>
         filter draws (Canvas (snd (drawGlyph ext da sty pt))) = filter draws (Canvas da)"
proof -
  have "drawGlyph ext da sty pt =
          (Some (PanicMessage (''Invalid GlyphShape: '' @ decimal (unat (Shape sty)))),
           issue (setLineStyle da \<lparr>LineStyle.Color = None, Width = Points ext (1 / 2),
                    Dashes = [], DashOffs = 0\<rparr>) [SetColor (GlyphStyle.Color sty)])"
    unfolding drawGlyph_def Let_def
    by (simp only: assms if_False if_True not_True_eq_False)
  then show ?thesis
    by (simp add: setLineStyle_def issue_def draws_def)
qed

theorem drawGlyph_invalid_shape_witness:
  "contains area10 \<lparr>point.x = 5, point.y = 5\<rparr> \<and>
   Shape glyph200 \<noteq> CircleGlyph \<and> Shape glyph200 \<noteq> RingGlyph \<and>
   \<not> (65 \<le> Shape glyph200 \<and> Shape glyph200 \<le> 90) \<and>
   drawGlyph noFonts area10 glyph200 \<lparr>point.x = 5, point.y = 5\<rparr> =
     (Some (PanicMessage ''Invalid GlyphShape: 200''),
      area10\<lparr>Canvas := [SetColor None, SetLineWidth (1 / 2), SetLineDash [] 0,
                         SetColor None]\<rparr>)"
  using drawGlyph_invalid_shape [of area10 "\<lparr>point.x = 5, point.y = 5\<rparr>" glyph200 noFonts]
  by (simp add: contains_def area10_def rect_max_def CircleGlyph_def RingGlyph_def
      noFonts_def glyph200_def decimal.simps digit_def issue_def prod_eq_iff)

text \<open>
  C10. For a point that the area does not contain, \<^verbatim>\<open>drawGlyph\<close> returns without a panic
  and without a command to the canvas, whatever the style: the test comes before the
  shape is looked at, so an invalid shape does not fail there.
\<close>

theorem drawGlyph_outside:
  "\<not> contains da pt \<Longrightarrow> drawGlyph ext da sty pt = (None, da)"
  by (simp add: drawGlyph_def)

theorem drawGlyph_outside_witness:
  "\<not> contains area10 \<lparr>point.x = 20, point.y = 5\<rparr> \<and>
   Shape glyph200 \<noteq> CircleGlyph \<and> Shape glyph200 \<noteq> RingGlyph \<and>
   \<not> (65 \<le> Shape glyph200 \<and> Shape glyph200 \<le> 90) \<and>
   drawGlyph noFonts area10 glyph200 \<lparr>point.x = 20, point.y = 5\<rparr> = (None, area10)"
  using drawGlyph_outside [of area10 "\<lparr>point.x = 20, point.y = 5\<rparr>" noFonts glyph200]
  by (simp add: contains_def area10_def rect_max_def CircleGlyph_def RingGlyph_def
      glyph200_def)

end
